theory Spec2Isabelle
  imports Main "HOL-Library.Multiset"
begin

section \<open>JavaScript values, objects and errors\<close>

text \<open>
  The values that the modelled code stores in object properties. A number is either
  integer valued (\<open>JInt\<close>) or not (\<open>JNonInt\<close>: a fraction, NaN or an infinity);
  lodash's \<open>isInteger\<close> accepts exactly the former. JavaScript numbers are IEEE 754
  doubles: \<open>JInt n\<close> is a number of the program when \<open>n\<close> is a double (every
  integer up to \<open>2^53\<close> in absolute value is one).
\<close>

datatype jsval = JUndefined | JNull | JBool bool | JInt int | JNonInt | JStr string

text \<open>A plain object: its own properties. \<open>delete o.k\<close> is \<open>o(k := None)\<close>.\<close>

type_synonym obj = "string \<rightharpoonup> jsval"

text \<open>Reading a property: a missing one reads as \<open>undefined\<close>.\<close>

definition prop_of :: "obj \<Rightarrow> string \<Rightarrow> jsval" where
  "prop_of ob k = (case ob k of None \<Rightarrow> JUndefined | Some v \<Rightarrow> v)"

fun truthy :: "jsval \<Rightarrow> bool" where
  "truthy JUndefined = False"
| "truthy JNull = False"
| "truthy (JBool b) = b"
| "truthy (JInt n) = (n \<noteq> 0)"
| "truthy JNonInt = True"
| "truthy (JStr s) = (s \<noteq> [])"

fun isInteger :: "jsval \<Rightarrow> bool" where
  "isInteger (JInt n) = True"
| "isInteger v = False"

text \<open>
  A thrown error: its class (what \<open>instanceof\<close> and \<open>error.name\<close> test), its
  message and its \<open>code\<close> property when it has one (a Postgres error carries the
  SQLSTATE there).
\<close>

datatype error = Error (err_class: string) (err_message: string) (err_code: "string option")

definition instanceof :: "error \<Rightarrow> string \<Rightarrow> bool" where
  "instanceof e c = (err_class e = c)"

text \<open>An argument that has a default value: the default applies to \<open>undefined\<close> only.\<close>

datatype 'a arg = Absent | IsNull | Given 'a

section \<open>Granule product volume (packages/api/lib/granules.js)\<close>

text \<open>
  \<^verbatim>\<open>function getGranuleProductVolume(granuleFiles = []) {
    return granuleFiles.map((f) => f.size).filter(isInteger).reduce((x, y) => x + y, 0);
  }\<close>
  \<open>reduce\<close> is a left fold from 0. A \<open>null\<close> argument is not replaced by the
  default, and \<open>null.map\<close> throws a TypeError.
\<close>

text \<open>
  \<open>x + y\<close> on integer-valued doubles is the exact sum rounded to the nearest double,
  ties to the even significand (53 bits), and an infinity from \<open>2^1024\<close> on.
  \<open>bit_length n\<close> is the number of binary digits of \<open>n\<close>.
\<close>

function bit_length :: "nat \<Rightarrow> nat" where
  "bit_length n = (if n = 0 then 0 else Suc (bit_length (n div 2)))"
  by pat_completeness auto
termination
  by (relation "measure id") auto

declare bit_length.simps [simp del]

definition to_double :: "int \<Rightarrow> jsval" where
  "to_double n =
     (let a = nat \<bar>n\<bar> in
      if a \<le> 2 ^ 53 then JInt n
      else
        let e = bit_length a - 53;
            q = a div 2 ^ e;
            r = a mod 2 ^ e;
            half = 2 ^ (e - 1);
            m = (if r > half \<or> (r = half \<and> odd q) then q + 1 else q);
            v = m * 2 ^ e
        in if v \<ge> 2 ^ 1024 then JNonInt else JInt (sgn n * int v))"

fun js_add :: "jsval \<Rightarrow> jsval \<Rightarrow> jsval" where
  "js_add (JInt x) (JInt y) = to_double (x + y)"
| "js_add x y = JNonInt"

definition getGranuleProductVolume :: "obj list arg \<Rightarrow> error + jsval" where
  "getGranuleProductVolume granuleFiles =
     (case granuleFiles of
        IsNull \<Rightarrow> Inl (Error ''TypeError'' ''Cannot read properties of null'' None)
      | Absent \<Rightarrow> Inr (foldl js_add (JInt 0) (filter isInteger (map (\<lambda>f. prop_of f ''size'') [])))
      | Given fs \<Rightarrow> Inr (foldl js_add (JInt 0) (filter isInteger (map (\<lambda>f. prop_of f ''size'') fs))))"

text \<open>The size of a file in bytes: its integer \<open>size\<close>; a file that has none counts for nothing.\<close>

definition size_in_bytes :: "obj \<Rightarrow> int" where
  "size_in_bytes f = (case prop_of f ''size'' of JInt n \<Rightarrow> n | _ \<Rightarrow> 0)"

text \<open>Example file lists: ordinary sizes, and sizes at the end of the doubles' exact range.\<close>

definition sized_files :: "obj list" where
  "sized_files =
     [[''fileName'' \<mapsto> JStr ''a.hdf'', ''size'' \<mapsto> JInt 1234],
      [''fileName'' \<mapsto> JStr ''a.hdf.met'', ''size'' \<mapsto> JInt 10],
      [''fileName'' \<mapsto> JStr ''a.jpg'']]"

definition huge_files :: "obj list" where
  "huge_files = [[''size'' \<mapsto> JInt 9007199254740992], [''size'' \<mapsto> JInt 1]]"

section \<open>Provider endpoints (the providers endpoint file)\<close>

text \<open>Template literals: \<open>`${v}`\<close> is JavaScript's ToString of the value.\<close>

function digits :: "nat \<Rightarrow> string" where
  "digits n = (if n < 10 then [char_of (48 + n)] else digits (n div 10) @ [char_of (48 + n mod 10)])"
  by pat_completeness auto
termination
  by (relation "measure id") auto

declare digits.simps [simp del]

fun js_string :: "jsval \<Rightarrow> string" where
  "js_string JUndefined = ''undefined''"
| "js_string JNull = ''null''"
| "js_string (JBool b) = (if b then ''true'' else ''false'')"
| "js_string (JInt n) = (if n < 0 then ''-'' @ digits (nat (- n)) else digits (nat n))"
| "js_string JNonInt = ''NaN''"
| "js_string (JStr s) = s"

text \<open>
  What a handler answers: \<open>res.send(object)\<close>, \<open>res.send({ record, message })\<close>, or a
  boom error with its HTTP status (\<open>notFound\<close> 404, \<open>conflict\<close> 409,
  \<open>badRequest\<close> 400, \<open>badImplementation\<close> 500).
\<close>

datatype response = Send obj | SendSaved obj string | Boom nat string

definition notFound :: "string \<Rightarrow> response" where "notFound m = Boom 404 m"
definition conflict :: "string \<Rightarrow> response" where "conflict m = Boom 409 m"
definition badRequest :: "string \<Rightarrow> response" where "badRequest m = Boom 400 m"

text \<open>A table of either store: records by their key (a provider's id, a row's \<open>name\<close>).\<close>

type_synonym table = "string \<rightharpoonup> obj"

text \<open>
  Modelled from the spec: the Provider model of the document store (models/providers is
  not among the sources). \<open>get\<close> yields the record stored under the key, and throws
  RecordDoesNotExist when there is none; a key that is not a string is refused by the
  store.
\<close>

definition providerModel_get :: "table \<Rightarrow> jsval \<Rightarrow> error + obj" where
  "providerModel_get tbl k =
     (case k of
        JStr s \<Rightarrow> (case tbl s of
                    Some r \<Rightarrow> Inr r
                  | None \<Rightarrow> Inl (Error ''RecordDoesNotExist'' ''No record found'' None))
      | _ \<Rightarrow> Inl (Error ''ValidationException'' ''The provided key element does not match the schema'' None))"

text \<open>
  \<^verbatim>\<open>async function get(req, res) {
    const id = req.params.id;
    let result;
    try { result = await providerModel.get({ id }); }
    catch (error) {
      if (error instanceof RecordDoesNotExist) return res.boom.notFound('Provider not found.');
    }
    delete result.password;
    return res.send(result);
  }\<close>
  The fetch is a parameter, so every behaviour of the model is covered. Any other error
  of the fetch is swallowed, \<open>result\<close> stays undefined and \<open>delete\<close> throws.
\<close>

definition get :: "(jsval \<Rightarrow> error + obj) \<Rightarrow> string \<Rightarrow> error + response" where
  "get fetch ident =
     (case fetch (JStr ident) of
        Inl e \<Rightarrow>
          if instanceof e ''RecordDoesNotExist'' then Inr (notFound ''Provider not found.'')
          else Inl (Error ''TypeError'' ''Cannot convert undefined or null to object'' None)
      | Inr result \<Rightarrow> Inr (Send (result(''password'' := None))))"











subsection \<open>Example providers, stores and requests\<close>






definition provider_table :: table where
  "provider_table = [''p1'' \<mapsto> [''id'' \<mapsto> JStr ''p1'', ''host'' \<mapsto> JStr ''example.com'',
                                  ''password'' \<mapsto> JStr ''secret'']]"

section \<open>Moving a granule's files (packages/api/lib/granules.js)\<close>

text \<open>
  \<^verbatim>\<open>const renameProperty = (from, to, obj) => {
    const newObj = { ...obj, [to]: obj[from] };
    delete newObj[from];
    return newObj;
  };\<close>
\<close>

definition renameProperty :: "string \<Rightarrow> string \<Rightarrow> obj \<Rightarrow> obj" where
  "renameProperty frm to ob = (ob(to \<mapsto> prop_of ob frm))(frm := None)"

text \<open>The granule record of the API; \<open>files\<close> is \<open>None\<close> when it is null or undefined.\<close>

record granule =
  granuleId :: string
  collectionId :: string
  files :: "obj list option"
  published :: bool

text \<open>What \<open>generateMoveFileParams\<close> yields for one file: \<open>{ source, target, file }\<close>
  (\<open>the_file\<close> is its \<open>file\<close>).\<close>

record moveFileParam =
  source :: "obj option"
  target :: "obj option"
  the_file :: obj

text \<open>
  What the function does to the outside, in order: a call of \<open>moveGranuleFile\<close> (with
  the granule's relational id and \<open>writeToPostgres\<close>), the update of the granule's
  record in the document store, the reconciliation of the CMR metadata.
\<close>

datatype move_event =
    MoveGranuleFile moveFileParam "nat option" bool
  | GranuleUpdate string "obj list"
  | ReconcileCMR string "obj list"

text \<open>The document store's file list of each granule, and the events so far.\<close>

record move_state =
  granule_files :: "string \<rightharpoonup> obj list"
  events :: "move_event list"

text \<open>
  The collaborators, none of them among the sources, are parameters: the helpers of
  \<open>@cumulus/message\<close> and \<open>@cumulus/ingest\<close>, the relational models' id lookups, the
  granules model's \<open>update\<close>, \<open>JSON.stringify\<close>, and for \<open>moveGranule\<close> the reads
  of the buckets configuration and the distribution map and the CMR reconciliation.
  \<open>Some e\<close> or \<open>Inl e\<close>: the call throws \<open>e\<close>.
\<close>

record move_env =
  deconstructCollectionId :: "string \<Rightarrow> error + string \<times> string"
  collection_getRecordCumulusId :: "string \<times> string \<Rightarrow> error + nat"
  granule_getRecordCumulusId :: "string \<Rightarrow> nat \<Rightarrow> error + nat"
  generateMoveFileParams :: "obj list option \<Rightarrow> obj list \<Rightarrow> moveFileParam list"
  moveGranuleFile :: "moveFileParam \<Rightarrow> nat option \<Rightarrow> bool \<Rightarrow> error + obj"
  stringify :: "moveFileParam \<Rightarrow> string"
  granulesModel_update :: "string \<Rightarrow> obj list \<Rightarrow> error option"
  getJsonS3Object :: "error option"
  fetchDistributionBucketMap :: "error option"
  reconcileCMRMetadata :: "string \<Rightarrow> obj list \<Rightarrow> error option"
  stringify_failure :: "granule \<Rightarrow> error list \<Rightarrow> obj list \<Rightarrow> string"

text \<open>
  The \<open>try\<close> block that looks the granule's relational id up: the collection's id
  first (it is an argument of the granule lookup), then the granule's.
  \<^verbatim>\<open>const { name, version } = deconstructCollectionId(apiGranule.collectionId);
  postgresCumulusGranuleId = await granulePgModel.getRecordCumulusId(dbClient, {
    granule_id: apiGranule.granuleId,
    collection_cumulus_id: await collectionPgModel.getRecordCumulusId(dbClient, { name, version }),
  });\<close>
\<close>

definition lookupCumulusGranuleId :: "move_env \<Rightarrow> granule \<Rightarrow> error + nat" where
  "lookupCumulusGranuleId env apiGranule =
     (case deconstructCollectionId env (collectionId apiGranule) of
        Inl e \<Rightarrow> Inl e
      | Inr (name, version) \<Rightarrow>
          (case collection_getRecordCumulusId env (name, version) of
             Inl e \<Rightarrow> Inl e
           | Inr collection_cumulus_id \<Rightarrow>
               granule_getRecordCumulusId env (granuleId apiGranule) collection_cumulus_id))"

text \<open>
  The block with its \<open>catch\<close>: \<open>(postgresCumulusGranuleId, writeToPostgres)\<close>, or the
  error thrown again.
  \<^verbatim>\<open>let postgresCumulusGranuleId;
  let writeToPostgres = true;
  try { ... } catch (error) {
    if (error.name !== 'RecordDoesNotExist') { throw error; }
    writeToPostgres = false;
  }\<close>
\<close>

definition postgresWriteMode :: "move_env \<Rightarrow> granule \<Rightarrow> error + nat option \<times> bool" where
  "postgresWriteMode env apiGranule =
     (case lookupCumulusGranuleId env apiGranule of
        Inr postgresCumulusGranuleId \<Rightarrow> Inr (Some postgresCumulusGranuleId, True)
      | Inl error \<Rightarrow>
          if err_class error \<noteq> ''RecordDoesNotExist'' then Inl error
          else Inr (None, False))"

text \<open>How a per-file promise settles.\<close>

datatype settled = Fulfilled | Rejected error

text \<open>
  One per-file promise: what it pushes on \<open>updatedFiles\<close> and how it settles.
  \<^verbatim>\<open>const { file } = moveFileParam;
  try {
    await dbClient.transaction(async (trx) => {
      const updatedFile = await moveGranuleFile(
        moveFileParam, filesPgModel, trx, postgresCumulusGranuleId, writeToPostgres);
      updatedFiles.push(renameProperty('name', 'fileName', updatedFile));
    });
  } catch (error) {
    updatedFiles.push(file);
    error.message = `${JSON.stringify(moveFileParam)}: ${error.message}`;
    throw error;
  }\<close>
  The transaction is taken to settle as its callback does: opening and committing it
  do not fail by themselves.
\<close>

definition moveFilePromise :: "move_env \<Rightarrow> nat option \<Rightarrow> bool \<Rightarrow> moveFileParam \<Rightarrow> obj \<times> settled" where
  "moveFilePromise env postgresCumulusGranuleId writeToPostgres moveFileParam =
     (case moveGranuleFile env moveFileParam postgresCumulusGranuleId writeToPostgres of
        Inr updatedFile \<Rightarrow> (renameProperty ''name'' ''fileName'' updatedFile, Fulfilled)
      | Inl error \<Rightarrow>
          (the_file moveFileParam,
           Rejected (Error (err_class error)
                       (stringify env moveFileParam @ '': '' @ err_message error)
                       (err_code error))))"

text \<open>
  The rest of \<open>moveGranuleFilesAndUpdateDatastore\<close>, after the lookup. The per-file
  promises run concurrently and the source does not fix the order in which they push
  on \<open>updatedFiles\<close>: \<open>order\<close> lists the positions of the parameters in the order
  in which their promises settle (\<open>settle_order\<close>: a list that is not a permutation
  of the positions stands for the order of the parameters). \<open>Promise.allSettled\<close>
  keeps the results in the order of the parameters. Obtaining the database client is
  taken to succeed.
  \<^verbatim>\<open>const updatedFiles = [];
  const moveFileParams = generateMoveFileParams(apiGranule.files, destinations);
  const moveFilePromises = moveFileParams.map(async (moveFileParam) => { ... });
  const moveResults = await Promise.allSettled(moveFilePromises);
  await granulesModel.update({ granuleId: apiGranule.granuleId }, { files: updatedFiles });
  const filteredResults = moveResults.filter((r) => r.status === 'rejected');
  const moveGranuleErrors = filteredResults.map((error) => error.reason);
  return { updatedFiles, moveGranuleErrors };\<close>
\<close>

definition settle_order :: "nat list \<Rightarrow> nat \<Rightarrow> nat list" where
  "settle_order order n = (if mset order = mset [0..<n] then order else [0..<n])"

fun reasons :: "settled list \<Rightarrow> error list" where
  "reasons [] = []"
| "reasons (Fulfilled # rs) = reasons rs"
| "reasons (Rejected e # rs) = e # reasons rs"

definition moveFilesAndUpdate ::
  "move_env \<Rightarrow> nat list \<Rightarrow> move_state \<Rightarrow> granule \<Rightarrow> obj list \<Rightarrow> nat option \<Rightarrow> bool
     \<Rightarrow> move_state \<times> (error + obj list \<times> error list)" where
  "moveFilesAndUpdate env order st apiGranule destinations postgresCumulusGranuleId writeToPostgres =
     (let moveFileParams = generateMoveFileParams env (files apiGranule) destinations;
          settle = moveFilePromise env postgresCumulusGranuleId writeToPostgres;
          settled = settle_order order (length moveFileParams);
          updatedFiles = map (\<lambda>i. fst (settle (moveFileParams ! i))) settled;
          moveResults = map (\<lambda>p. snd (settle p)) moveFileParams;
          st1 = st\<lparr>events := events st @
                  map (\<lambda>i. MoveGranuleFile (moveFileParams ! i) postgresCumulusGranuleId writeToPostgres) settled\<rparr>
      in case granulesModel_update env (granuleId apiGranule) updatedFiles of
           Some e \<Rightarrow> (st1, Inl e)
         | None \<Rightarrow>
             (st1\<lparr>granule_files := (granule_files st1)(granuleId apiGranule \<mapsto> updatedFiles),
                  events := events st1 @ [GranuleUpdate (granuleId apiGranule) updatedFiles]\<rparr>,
              Inr (updatedFiles, reasons moveResults)))"

definition moveGranuleFilesAndUpdateDatastore ::
  "move_env \<Rightarrow> nat list \<Rightarrow> move_state \<Rightarrow> granule \<Rightarrow> obj list
     \<Rightarrow> move_state \<times> (error + obj list \<times> error list)" where
  "moveGranuleFilesAndUpdateDatastore env order st apiGranule destinations =
     (case postgresWriteMode env apiGranule of
        Inl error \<Rightarrow> (st, Inl error)
      | Inr (postgresCumulusGranuleId, writeToPostgres) \<Rightarrow>
          moveFilesAndUpdate env order st apiGranule destinations postgresCumulusGranuleId writeToPostgres)"

text \<open>
  \<^verbatim>\<open>async function moveGranule(apiGranule, destinations, distEndpoint, granulesModel) {
    const bucketsConfig = await s3Utils.getJsonS3Object(...);
    const distributionBucketMap = await fetchDistributionBucketMap();
    const { updatedFiles, moveGranuleErrors } =
      await moveGranuleFilesAndUpdateDatastore({ apiGranule, granulesModel, destinations });
    await granulesModel.cmrUtils.reconcileCMRMetadata({ granuleId, updatedFiles, ... });
    if (moveGranuleErrors.length > 0) {
      throw new Error(JSON.stringify({
        reason: 'Failed to move granule', granule: apiGranule,
        errors: moveGranuleErrors, granuleFilesRecords: updatedFiles }));
    }
  }\<close>
  \<open>None\<close>: it returns; \<open>Some e\<close>: it throws \<open>e\<close>.
\<close>

definition moveGranule ::
  "move_env \<Rightarrow> nat list \<Rightarrow> move_state \<Rightarrow> granule \<Rightarrow> obj list \<Rightarrow> move_state \<times> error option" where
  "moveGranule env order st apiGranule destinations =
     (case getJsonS3Object env of
        Some e \<Rightarrow> (st, Some e)
      | None \<Rightarrow>
          (case fetchDistributionBucketMap env of
             Some e \<Rightarrow> (st, Some e)
           | None \<Rightarrow>
               (case moveGranuleFilesAndUpdateDatastore env order st apiGranule destinations of
                  (st1, Inl e) \<Rightarrow> (st1, Some e)
                | (st1, Inr (updatedFiles, moveGranuleErrors)) \<Rightarrow>
                    let st2 = st1\<lparr>events := events st1 @ [ReconcileCMR (granuleId apiGranule) updatedFiles]\<rparr> in
                    (case reconcileCMRMetadata env (granuleId apiGranule) updatedFiles of
                       Some e \<Rightarrow> (st2, Some e)
                     | None \<Rightarrow>
                         if length moveGranuleErrors > 0
                         then (st2, Some (Error ''Error''
                                 (stringify_failure env apiGranule moveGranuleErrors updatedFiles) None))
                         else (st2, None)))))"

subsection \<open>An example granule move\<close>

text \<open>
  A concrete environment: collection \<open>MOD09GQ___006\<close> has the relational id 7 and its
  granule \<open>G1\<close> the id 42; collection \<open>OLD___001\<close> has no relational record; every
  file goes to the bucket \<open>archive\<close>, and the move of \<open>b.hdf\<close> fails.
\<close>

definition example_move_env :: move_env where
  "example_move_env =
     \<lparr>deconstructCollectionId =
        (\<lambda>c. if c = ''MOD09GQ___006'' then Inr (''MOD09GQ'', ''006'')
             else if c = ''OLD___001'' then Inr (''OLD'', ''001'')
             else Inl (Error ''Error'' ''invalid collectionId'' None)),
      collection_getRecordCumulusId =
        (\<lambda>nv. if nv = (''MOD09GQ'', ''006'') then Inr 7
              else Inl (Error ''RecordDoesNotExist'' ''Record in collections does not exist'' None)),
      granule_getRecordCumulusId =
        (\<lambda>gid cid. if gid = ''G1'' \<and> cid = 7 then Inr 42
                   else Inl (Error ''RecordDoesNotExist'' ''Record in granules does not exist'' None)),
      generateMoveFileParams =
        (\<lambda>fs ds. map (\<lambda>f. \<lparr>source = Some [''Bucket'' \<mapsto> prop_of f ''bucket'', ''Key'' \<mapsto> prop_of f ''key''],
                             target = Some [''Bucket'' \<mapsto> JStr ''archive'', ''Key'' \<mapsto> prop_of f ''key''],
                             the_file = f\<rparr>)
                   (case fs of None \<Rightarrow> [] | Some l \<Rightarrow> l)),
      moveGranuleFile =
        (\<lambda>p pgid w. if prop_of (the_file p) ''key'' = JStr ''b.hdf''
                    then Inl (Error ''NoSuchKey'' ''The specified key does not exist.'' None)
                    else Inr [''bucket'' \<mapsto> JStr ''archive'', ''key'' \<mapsto> prop_of (the_file p) ''key'',
                              ''name'' \<mapsto> prop_of (the_file p) ''fileName'']),
      stringify = (\<lambda>p. js_string (prop_of (the_file p) ''key'')),
      granulesModel_update = (\<lambda>gid fs. None),
      getJsonS3Object = None,
      fetchDistributionBucketMap = None,
      reconcileCMRMetadata = (\<lambda>gid fs. None),
      stringify_failure = (\<lambda>g errs fs. ''Failed to move granule '' @ granuleId g)\<rparr>"

definition file_a :: obj where
  "file_a = [''bucket'' \<mapsto> JStr ''staging'', ''key'' \<mapsto> JStr ''a.hdf'', ''fileName'' \<mapsto> JStr ''a.hdf'']"

definition file_b :: obj where
  "file_b = [''bucket'' \<mapsto> JStr ''staging'', ''key'' \<mapsto> JStr ''b.hdf'', ''fileName'' \<mapsto> JStr ''b.hdf'']"

definition granule_G1 :: granule where
  "granule_G1 = \<lparr>granuleId = ''G1'', collectionId = ''MOD09GQ___006'', files = Some [file_a, file_b], published = False\<rparr>"

definition granule_unmigrated :: granule where
  "granule_unmigrated = \<lparr>granuleId = ''G2'', collectionId = ''OLD___001'', files = Some [file_a], published = False\<rparr>"

definition granule_malformed :: granule where
  "granule_malformed = \<lparr>granuleId = ''G3'', collectionId = ''no version'', files = Some [file_a], published = False\<rparr>"

definition empty_move_state :: move_state where
  "empty_move_state = \<lparr>granule_files = Map.empty, events = []\<rparr>"

section \<open>The PDR model (models/pdrs)\<close>

text \<open>
  The model's file is not among the sources; its tests are. The record, the message and
  \<open>generatePdrRecord\<close> follow the tests, the decision follows the spec (section 4.2).
\<close>

datatype pdr_status = Running | Completed | Failed

record pdr_stats =
  completed :: nat
  failed :: nat
  processing :: nat
  total :: nat

text \<open>
  The attributes of a PDR record that the resolver reads: the execution it comes from
  (state machine and execution name), and \<open>createdAt\<close>, the start time of that
  execution's workflow.
\<close>

record pdr_record =
  pdrName :: string
  status :: pdr_status
  stats :: pdr_stats
  execution :: "string \<times> string"
  createdAt :: int

text \<open>The status message of a workflow execution, as the tests build it.\<close>

record cumulus_message =
  state_machine :: string
  execution_name :: string
  workflow_start_time :: int
  meta_status :: pdr_status
  payload_completed :: "string list"
  payload_failed :: "string list"
  payload_running :: "string list"
  payload_pdr :: "obj option"

text \<open>
  Modelled from the spec: \<open>generatePdrRecord\<close>, as its tests state it. No record
  (\<open>undefined\<close>) when the message has no \<open>payload.pdr\<close>; an error when the PDR has no
  name; otherwise the status of the message, the counts of its completed, failed and
  running executions (\<open>total\<close> their sum), its execution and its workflow start time.
\<close>

definition generatePdrRecord :: "cumulus_message \<Rightarrow> error + pdr_record option" where
  "generatePdrRecord message =
     (case payload_pdr message of
        None \<Rightarrow> Inr None
      | Some pdr \<Rightarrow>
          if \<not> truthy (prop_of pdr ''name'')
          then Inl (Error ''CumulusModelError'' ''Could not find name on PDR object'' None)
          else Inr (Some
            \<lparr>pdrName = js_string (prop_of pdr ''name''),
             status = meta_status message,
             stats = \<lparr>completed = length (payload_completed message),
                      failed = length (payload_failed message),
                      processing = length (payload_running message),
                      total = length (payload_completed message) + length (payload_failed message)
                                + length (payload_running message)\<rparr>,
             execution = (state_machine message, execution_name message),
             createdAt = workflow_start_time message\<rparr>))"

definition terminal :: "pdr_status \<Rightarrow> bool" where
  "terminal s = (s = Completed \<or> s = Failed)"

text \<open>The progress that the resolver compares: the sum of the completed and failed counters.\<close>

definition progress_of :: "pdr_record \<Rightarrow> nat" where
  "progress_of r = completed (stats r) + failed (stats r)"

text \<open>
  Modelled from the spec: the transition rule of the Conditional Update Resolver,
  \<open>resolve(current, incoming) -> {apply, mergedRecord}\<close>.
  \<^enum> No current record: the incoming report is applied.
  \<^enum> Current terminal, incoming from a different execution whose workflow start time is
    not strictly newer than current's creation time: rejected, current unchanged.
  \<^enum> Current terminal, incoming from a different, newer execution: incoming replaces
    current.
  \<^enum> Same execution: rejected when current is terminal; when current is running, applied
    if its progress is greater, rejected if it is less, and on equal progress applied
    only if something changed (otherwise a write that changes nothing).

  A PDR record is never partially constructed, so an applied report is the whole new
  record. The spec does not say what happens to a running record when the report comes
  from a different execution: that decision is the parameter \<open>other_execution\<close>.
\<close>

definition resolve ::
  "(pdr_record \<Rightarrow> pdr_record \<Rightarrow> bool) \<Rightarrow> pdr_record option \<Rightarrow> pdr_record \<Rightarrow> bool \<times> pdr_record" where
  "resolve other_execution current incoming =
     (case current of
        None \<Rightarrow> (True, incoming)
      | Some cur \<Rightarrow>
          if execution incoming \<noteq> execution cur then
            (if terminal (status cur) then
               (if createdAt incoming > createdAt cur then (True, incoming) else (False, cur))
             else if other_execution cur incoming then (True, incoming) else (False, cur))
          else if terminal (status cur) then (False, cur)
          else if progress_of incoming > progress_of cur then (True, incoming)
          else if progress_of incoming = progress_of cur \<and> incoming \<noteq> cur then (True, incoming)
          else (False, cur))"

text \<open>
  Modelled from the spec: \<open>storePdrFromCumulusMessage\<close>. Nothing is done for a message
  without a PDR; otherwise the record of the message is resolved against the stored one
  and written when it applies.
\<close>

definition storePdrFromCumulusMessage ::
  "(pdr_record \<Rightarrow> pdr_record \<Rightarrow> bool) \<Rightarrow> (string \<rightharpoonup> pdr_record) \<Rightarrow> cumulus_message
     \<Rightarrow> error + (string \<rightharpoonup> pdr_record)" where
  "storePdrFromCumulusMessage other_execution tbl message =
     (case generatePdrRecord message of
        Inl e \<Rightarrow> Inl e
      | Inr None \<Rightarrow> Inr tbl
      | Inr (Some pdrRecord) \<Rightarrow>
          (case resolve other_execution (tbl (pdrName pdrRecord)) pdrRecord of
             (True, merged) \<Rightarrow> Inr (tbl(pdrName pdrRecord \<mapsto> merged))
           | (False, cur) \<Rightarrow> Inr tbl))"

text \<open>
  The messages of the tests (\<open>createPdrMessage\<close>): a state machine, an execution, a
  status, a workflow start time and the numbers of completed, failed and running
  executions, for the PDR \<open>pdr1\<close>.
\<close>

definition createPdrMessage ::
  "string \<Rightarrow> pdr_status \<Rightarrow> int \<Rightarrow> nat \<Rightarrow> nat \<Rightarrow> nat \<Rightarrow> cumulus_message" where
  "createPdrMessage exec st start nc nf nr =
     \<lparr>state_machine = ''parsePdr'',
      execution_name = exec,
      workflow_start_time = start,
      meta_status = st,
      payload_completed = replicate nc ''execution'',
      payload_failed = replicate nf ''execution'',
      payload_running = replicate nr ''execution'',
      payload_pdr = Some [''name'' \<mapsto> JStr ''pdr1'']\<rparr>"

definition store_first :: "cumulus_message \<Rightarrow> string \<rightharpoonup> pdr_record" where
  "store_first message =
     (case storePdrFromCumulusMessage (\<lambda>cur inc. True) Map.empty message of
        Inr tbl \<Rightarrow> tbl
      | Inl e \<Rightarrow> Map.empty)"

section \<open>Execution endpoints (endpoints/executions)\<close>

text \<open>
  The endpoint and the translation of \<open>@cumulus/db\<close> are not among the sources; the
  endpoint's tests are. The stores: the executions of the document store and of the
  relational store (by arn; a row has its \<open>cumulus_id\<close>), and the surrogate ids of the
  collections (by collection id) and of the async operations (by id).
\<close>

record execution_db =
  executions_dynamo :: table
  executions_pg :: table
  collections_pg :: "string \<rightharpoonup> nat"
  async_operations_pg :: "string \<rightharpoonup> nat"
  next_cumulus_id :: nat

text \<open>
  Modelled from the spec: the foreign-key resolution of the Schema Translator
  (section 4.1) for an execution. The collection is a required reference: when the record
  names a collection that does not exist the translation fails with
  ReferenceNotFoundError, the message naming the reference and the identifier (the
  tests expect \<open>Record in collections with identifiers ... does not exist\<close>). The
  async operation, when the record supplies one, is not swallowed either: it fails
  (section 4.1 and the design notes; the tests expect
  \<open>Record in async_operations ... does not exist\<close>). The parent execution is
  optional: when it cannot be resolved the field is left out. Of the row's own columns
  only \<open>arn\<close> and \<open>status\<close> are kept here.
\<close>

definition reference_not_found :: "string \<Rightarrow> string \<Rightarrow> error" where
  "reference_not_found tbl ident =
     Error ''ReferenceNotFoundError''
       (''Record in '' @ tbl @ '' with identifiers '' @ ident @ '' does not exist'') None"

definition translateApiExecutionToPostgresExecution :: "execution_db \<Rightarrow> obj \<Rightarrow> error + obj" where
  "translateApiExecutionToPostgresExecution db e =
     (let row0 = [''arn'' \<mapsto> prop_of e ''arn'', ''status'' \<mapsto> prop_of e ''status''] in
      case (case e ''collectionId'' of
              None \<Rightarrow> Inr row0
            | Some c \<Rightarrow>
                (case collections_pg db (js_string c) of
                   None \<Rightarrow> Inl (reference_not_found ''collections'' (js_string c))
                 | Some cid \<Rightarrow> Inr (row0(''collection_cumulus_id'' \<mapsto> JInt (int cid))))) of
        Inl err \<Rightarrow> Inl err
      | Inr row1 \<Rightarrow>
          (case (case e ''asyncOperationId'' of
                   None \<Rightarrow> Inr row1
                 | Some a \<Rightarrow>
                     (case async_operations_pg db (js_string a) of
                        None \<Rightarrow> Inl (reference_not_found ''async_operations'' (js_string a))
                      | Some aid \<Rightarrow> Inr (row1(''async_operation_cumulus_id'' \<mapsto> JInt (int aid))))) of
             Inl err \<Rightarrow> Inl err
           | Inr row2 \<Rightarrow>
               (case e ''parentArn'' of
                  None \<Rightarrow> Inr row2
                | Some p \<Rightarrow>
                    (case executions_pg db (js_string p) of
                       None \<Rightarrow> Inr row2
                     | Some parent \<Rightarrow> Inr (row2(''parent_cumulus_id'' \<mapsto> prop_of parent ''cumulus_id''))))))"

text \<open>
  Modelled from the spec: the create of an execution (the tests' POST /executions). A
  record without arn is a bad request (400, \<open>Field arn is missing\<close>); a translation
  that fails is surfaced as a bad request (400) with the error's message; a record whose
  arn exists is a conflict (409); otherwise the row gets a fresh \<open>cumulus_id\<close> and is
  written to the relational store, the record to the document store, and the record is
  returned.
\<close>

definition execution_create :: "execution_db \<Rightarrow> obj \<Rightarrow> execution_db \<times> response" where
  "execution_create db e =
     (if \<not> truthy (prop_of e ''arn'') then (db, badRequest ''Field arn is missing'')
      else
        case translateApiExecutionToPostgresExecution db e of
          Inl err \<Rightarrow> (db, badRequest (err_message err))
        | Inr row \<Rightarrow>
            let a = js_string (prop_of e ''arn'') in
            if executions_pg db a \<noteq> None \<or> executions_dynamo db a \<noteq> None
            then (db, conflict (''A record already exists for '' @ a))
            else
              (db\<lparr>executions_dynamo := (executions_dynamo db)(a \<mapsto> e),
                  executions_pg := (executions_pg db)
                     (a \<mapsto> row(''cumulus_id'' \<mapsto> JInt (int (next_cumulus_id db)))),
                  next_cumulus_id := Suc (next_cumulus_id db)\<rparr>,
               Send e))"

text \<open>A reference that the record does not supply, or one that resolves.\<close>

definition resolves :: "(string \<rightharpoonup> nat) \<Rightarrow> jsval option \<Rightarrow> bool" where
  "resolves tbl v = (case v of None \<Rightarrow> True | Some x \<Rightarrow> tbl (js_string x) \<noteq> None)"

text \<open>
  The stores of the tests: one collection, one async operation, one execution; and
  new executions that name them, or name references that do not exist.
\<close>

definition example_db :: execution_db where
  "example_db =
     \<lparr>executions_dynamo = [''arn:1'' \<mapsto> [''arn'' \<mapsto> JStr ''arn:1'', ''status'' \<mapsto> JStr ''completed'']],
      executions_pg = [''arn:1'' \<mapsto> [''arn'' \<mapsto> JStr ''arn:1'', ''status'' \<mapsto> JStr ''completed'',
                                     ''cumulus_id'' \<mapsto> JInt 1]],
      collections_pg = [''MOD09GQ___006'' \<mapsto> 7],
      async_operations_pg = [''op-1'' \<mapsto> 3],
      next_cumulus_id = 2\<rparr>"

definition newExecution :: "string \<Rightarrow> string \<Rightarrow> string \<Rightarrow> string \<Rightarrow> obj" where
  "newExecution a op c p =
     [''arn'' \<mapsto> JStr a, ''status'' \<mapsto> JStr ''running'', ''asyncOperationId'' \<mapsto> JStr op,
      ''collectionId'' \<mapsto> JStr c, ''parentArn'' \<mapsto> JStr p]"

section \<open>Properties\<close>

subsection \<open>Granule product volume\<close>

lemma to_double_exact: "\<bar>n\<bar> \<le> 2 ^ 53 \<Longrightarrow> to_double n = JInt n"
  by (simp add: to_double_def Let_def nat_le_iff)

lemma foldl_js_add_ints:
  "\<bar>a\<bar> + sum_list (map (\<lambda>f. \<bar>size_in_bytes f\<bar>) fs) \<le> 2 ^ 53 \<Longrightarrow>
   foldl js_add (JInt a) (filter isInteger (map (\<lambda>f. prop_of f ''size'') fs))
     = JInt (a + sum_list (map size_in_bytes fs))"
proof (induction fs arbitrary: a)
  case Nil
  show ?case by simp
next
  case (Cons f fs)
  show ?case
  proof (cases "prop_of f ''size''")
    case (JInt n)
    with Cons.prems have bound: "\<bar>a\<bar> + \<bar>n\<bar> + sum_list (map (\<lambda>f. \<bar>size_in_bytes f\<bar>) fs) \<le> 2 ^ 53"
      by (simp add: size_in_bytes_def)
    have nonneg: "0 \<le> sum_list (map (\<lambda>f. \<bar>size_in_bytes f\<bar>) fs)"
      by (rule sum_list_nonneg) auto
    have "\<bar>a + n\<bar> \<le> \<bar>a\<bar> + \<bar>n\<bar>" by (rule abs_triangle_ineq)
    with bound nonneg have small: "\<bar>a + n\<bar> \<le> 2 ^ 53"
      and rest: "\<bar>a + n\<bar> + sum_list (map (\<lambda>f. \<bar>size_in_bytes f\<bar>) fs) \<le> 2 ^ 53"
      by linarith+
    from JInt show ?thesis
      using Cons.IH [OF rest] to_double_exact [OF small]
      by (simp add: size_in_bytes_def add.assoc)
  next
    case JUndefined
    with Cons.prems Cons.IH [of a] show ?thesis by (simp add: size_in_bytes_def)
  next
    case JNull
    with Cons.prems Cons.IH [of a] show ?thesis by (simp add: size_in_bytes_def)
  next
    case (JBool b)
    with Cons.prems Cons.IH [of a] show ?thesis by (simp add: size_in_bytes_def)
  next
    case JNonInt
    with Cons.prems Cons.IH [of a] show ?thesis by (simp add: size_in_bytes_def)
  next
    case (JStr x)
    with Cons.prems Cons.IH [of a] show ?thesis by (simp add: size_in_bytes_def)
  qed
qed

text \<open>
  C9, as amended. When the absolute values of the files' sizes sum to at most
  \<open>2^53\<close> (the range in which every sum the fold forms is a double, so no addition
  rounds), the product volume of a granule is the sum of the sizes in bytes of its files;
  it is 0 for an empty file list and for an absent (undefined) one; for a \<open>null\<close> file
  list the function throws a TypeError.
\<close>

theorem getGranuleProductVolume_sum:
  "(sum_list (map (\<lambda>f. \<bar>size_in_bytes f\<bar>) fs) \<le> 2 ^ 53 \<longrightarrow>
      getGranuleProductVolume (Given fs) = Inr (JInt (sum_list (map size_in_bytes fs))))
   \<and> getGranuleProductVolume (Given []) = Inr (JInt 0)
   \<and> getGranuleProductVolume Absent = Inr (JInt 0)
   \<and> getGranuleProductVolume IsNull = Inl (Error ''TypeError'' ''Cannot read properties of null'' None)"
  using foldl_js_add_ints [of 0 fs]
  by (simp add: getGranuleProductVolume_def)

text \<open>Three files, of 1234 bytes, of 10 bytes and without a size: 1244 bytes.\<close>

theorem getGranuleProductVolume_sum_witness:
  "sum_list (map (\<lambda>f. \<bar>size_in_bytes f\<bar>) sized_files) \<le> 2 ^ 53
   \<and> sum_list (map size_in_bytes sized_files) = 1244
   \<and> getGranuleProductVolume (Given sized_files) = Inr (JInt 1244)"
proof -
  have sizes: "map size_in_bytes sized_files = [1234, 10, 0]"
    by (simp add: sized_files_def size_in_bytes_def prop_of_def)
  have bound: "sum_list (map (\<lambda>f. \<bar>size_in_bytes f\<bar>) sized_files) \<le> 2 ^ 53"
    by (simp add: sized_files_def size_in_bytes_def prop_of_def)
  have total: "sum_list (map size_in_bytes sized_files) = 1244"
    by (simp add: sizes)
  have vol: "getGranuleProductVolume (Given sized_files) = Inr (JInt 1244)"
    using getGranuleProductVolume_sum [of sized_files] bound total by simp
  show ?thesis
    by (intro conjI) (rule bound total vol)+
qed

text \<open>
  C9 as stated fails beyond the doubles' exact range and for a \<open>null\<close> list: for two
  files of \<open>2^53\<close> bytes and of 1 byte the sum of the sizes is \<open>2^53 + 1\<close>, which is
  no double, and the function returns \<open>2^53\<close>; and a \<open>null\<close> list is not replaced
  by the default, so the function throws instead of returning 0.
\<close>

theorem getGranuleProductVolume_counterexample:
  "sum_list (map size_in_bytes huge_files) = 9007199254740993
   \<and> getGranuleProductVolume (Given huge_files) = Inr (JInt 9007199254740992)
   \<and> getGranuleProductVolume IsNull = Inl (Error ''TypeError'' ''Cannot read properties of null'' None)"
proof -
  have total: "sum_list (map size_in_bytes huge_files) = 9007199254740993"
    by (simp add: huge_files_def size_in_bytes_def prop_of_def)
  have digits54: "bit_length 9007199254740993 = 54"
    by (simp add: bit_length.simps)
  have rounded: "to_double 9007199254740993 = JInt 9007199254740992"
    by (simp add: to_double_def Let_def digits54)
  have first: "to_double 9007199254740992 = JInt 9007199254740992"
    by (rule to_double_exact) simp
  have vol: "getGranuleProductVolume (Given huge_files) = Inr (JInt 9007199254740992)"
    by (simp add: getGranuleProductVolume_def huge_files_def prop_of_def first rounded)
  have null: "getGranuleProductVolume IsNull = Inl (Error ''TypeError'' ''Cannot read properties of null'' None)"
    by (simp add: getGranuleProductVolume_def)
  show ?thesis
    by (intro conjI) (rule total vol null)+
qed

subsection \<open>Provider endpoints\<close>

text \<open>
  C10. For every stored provider record, \<open>get\<close> deletes the \<open>password\<close> property of
  the fetched record before it responds: whatever the stored password is, the record sent
  to the caller has no \<open>password\<close> property, and every other property is as stored.
\<close>

theorem get_deletes_password:
  "fetch (JStr ident) = Inr r \<Longrightarrow>
   \<exists>sent. get fetch ident = Inr (Send sent) \<and> ''password'' \<notin> dom sent
          \<and> (\<forall>k. k \<noteq> ''password'' \<longrightarrow> sent k = r k)"
  by (simp add: get_def)

text \<open>A provider stored with the password \<open>secret\<close> is sent without it.\<close>

theorem get_deletes_password_witness:
  "providerModel_get provider_table (JStr ''p1'')
      = Inr [''id'' \<mapsto> JStr ''p1'', ''host'' \<mapsto> JStr ''example.com'', ''password'' \<mapsto> JStr ''secret'']
   \<and> (\<exists>sent. get (providerModel_get provider_table) ''p1'' = Inr (Send sent)
         \<and> ''password'' \<notin> dom sent
         \<and> sent ''id'' = Some (JStr ''p1'') \<and> sent ''host'' = Some (JStr ''example.com''))"
proof -
  have h: "providerModel_get provider_table (JStr ''p1'')
      = Inr [''id'' \<mapsto> JStr ''p1'', ''host'' \<mapsto> JStr ''example.com'', ''password'' \<mapsto> JStr ''secret'']"
    by (simp add: providerModel_get_def provider_table_def)
  from get_deletes_password [of "providerModel_get provider_table" "''p1''", OF h] obtain sent where
    s: "get (providerModel_get provider_table) ''p1'' = Inr (Send sent)" "''password'' \<notin> dom sent"
      "\<forall>k. k \<noteq> ''password'' \<longrightarrow>
         sent k = [''id'' \<mapsto> JStr ''p1'', ''host'' \<mapsto> JStr ''example.com'', ''password'' \<mapsto> JStr ''secret''] k"
    by blast
  from s(3) have "sent ''id'' = Some (JStr ''p1'')" "sent ''host'' = Some (JStr ''example.com'')"
    by simp_all
  with h s(1,2) show ?thesis by blast
qed




subsection \<open>Moving a granule's files\<close>

lemma mset_map_nth_order:
  assumes "mset order = mset [0..<length xs]"
  shows "mset (map (\<lambda>i. f (xs ! i)) order) = mset (map f xs)"
proof -
  have "mset (map (\<lambda>i. f (xs ! i)) order) = image_mset (\<lambda>i. f (xs ! i)) (mset order)"
    by simp
  also have "\<dots> = image_mset (\<lambda>i. f (xs ! i)) (mset [0..<length xs])"
    using assms by simp
  also have "\<dots> = mset (map (\<lambda>i. f (xs ! i)) [0..<length xs])"
    by simp
  also have "map (\<lambda>i. f (xs ! i)) [0..<length xs] = map f xs"
    by (simp add: map_equality_iff)
  finally show ?thesis .
qed

lemma mset_settle_order: "mset (settle_order order n) = mset [0..<n]"
  by (simp add: settle_order_def)

lemma reasons_settled:
  "reasons (map (\<lambda>p. snd (moveFilePromise env pgid w p)) ps) =
     concat (map (\<lambda>p. case moveGranuleFile env p pgid w of
                         Inr uf \<Rightarrow> []
                       | Inl e \<Rightarrow> [Error (err_class e) (stringify env p @ '': '' @ err_message e) (err_code e)]) ps)"
  by (induction ps) (auto simp: moveFilePromise_def split: sum.splits)

lemma length_reasons_settled:
  "length (reasons (map (\<lambda>p. snd (moveFilePromise env pgid w p)) ps)) =
     length (filter (\<lambda>p. isl (moveGranuleFile env p pgid w)) ps)"
  by (induction ps) (auto simp: moveFilePromise_def split: sum.splits)

lemma renameProperty_other:
  "k \<noteq> frm \<Longrightarrow> k \<noteq> to \<Longrightarrow> prop_of (renameProperty frm to ob) k = prop_of ob k"
  by (simp add: renameProperty_def prop_of_def)

lemma fst_moveFilePromise:
  "fst (moveFilePromise env pgid w p) =
     (case moveGranuleFile env p pgid w of
        Inr uf \<Rightarrow> renameProperty ''name'' ''fileName'' uf
      | Inl e \<Rightarrow> the_file p)"
  by (simp add: moveFilePromise_def split: sum.splits)

text \<open>
  C3. A relocation in which some per-file moves fail, the lookup, the update of the
  document store, the configuration reads and the CMR reconciliation succeeding,
  whatever the order in which the per-file promises settle:
  \<^item> the granule's file list is written by one update, issued after every per-file
    attempt (the events added are the attempts, then the one update), and it is the
    list that the document store then holds;
  \<^item> the list holds, for each parameter, the file that \<open>moveGranuleFile\<close> returned
    (its \<open>name\<close> renamed to \<open>fileName\<close>, its bucket and key untouched) when the move
    succeeded, and the original file when it failed;
  \<^item> the errors are one per failed move, in the order of the parameters, each message
    prefixed with the parameter;
  \<^item> when there is such an error, \<open>moveGranule\<close> throws the aggregate error, and the
    document store still holds the list written (nothing is rolled back).
\<close>

theorem partial_move_is_persisted:
  assumes mode: "postgresWriteMode env g = Inr (pgid, w)"
    and upd: "\<forall>fs. granulesModel_update env (granuleId g) fs = None"
    and cfg: "getJsonS3Object env = None" "fetchDistributionBucketMap env = None"
    and cmr: "\<forall>fs. reconcileCMRMetadata env (granuleId g) fs = None"
  shows "\<exists>st1 updatedFiles errs.
      moveGranuleFilesAndUpdateDatastore env order st g dests = (st1, Inr (updatedFiles, errs))
    \<and> events st1 = events st
         @ map (\<lambda>i. MoveGranuleFile (generateMoveFileParams env (files g) dests ! i) pgid w)
             (settle_order order (length (generateMoveFileParams env (files g) dests)))
         @ [GranuleUpdate (granuleId g) updatedFiles]
    \<and> granule_files st1 (granuleId g) = Some updatedFiles
    \<and> mset updatedFiles =
         mset (map (\<lambda>p. case moveGranuleFile env p pgid w of
                           Inr uf \<Rightarrow> renameProperty ''name'' ''fileName'' uf
                         | Inl e \<Rightarrow> the_file p)
                (generateMoveFileParams env (files g) dests))
    \<and> (\<forall>uf. prop_of (renameProperty ''name'' ''fileName'' uf) ''bucket'' = prop_of uf ''bucket''
           \<and> prop_of (renameProperty ''name'' ''fileName'' uf) ''key'' = prop_of uf ''key'')
    \<and> errs = concat (map (\<lambda>p. case moveGranuleFile env p pgid w of
                                 Inr uf \<Rightarrow> []
                               | Inl e \<Rightarrow> [Error (err_class e) (stringify env p @ '': '' @ err_message e) (err_code e)])
                      (generateMoveFileParams env (files g) dests))
    \<and> length errs = length (filter (\<lambda>p. isl (moveGranuleFile env p pgid w))
                               (generateMoveFileParams env (files g) dests))
    \<and> (errs \<noteq> [] \<longrightarrow>
         (\<exists>st2. moveGranule env order st g dests =
                  (st2, Some (Error ''Error'' (stringify_failure env g errs updatedFiles) None))
              \<and> granule_files st2 (granuleId g) = Some updatedFiles
              \<and> events st2 = events st1 @ [ReconcileCMR (granuleId g) updatedFiles]))"
proof -
  define params where "params = generateMoveFileParams env (files g) dests"
  define settled where "settled = settle_order order (length params)"
  define updatedFiles where "updatedFiles = map (\<lambda>i. fst (moveFilePromise env pgid w (params ! i))) settled"
  define errs where "errs = reasons (map (\<lambda>p. snd (moveFilePromise env pgid w p)) params)"
  define st1 where "st1 = st\<lparr>granule_files := (granule_files st)(granuleId g \<mapsto> updatedFiles),
     events := events st @ map (\<lambda>i. MoveGranuleFile (params ! i) pgid w) settled
                 @ [GranuleUpdate (granuleId g) updatedFiles]\<rparr>"
  have run: "moveGranuleFilesAndUpdateDatastore env order st g dests = (st1, Inr (updatedFiles, errs))"
    using mode upd
    by (simp add: moveGranuleFilesAndUpdateDatastore_def moveFilesAndUpdate_def Let_def
        params_def settled_def updatedFiles_def errs_def st1_def)
  have ev: "events st1 = events st @ map (\<lambda>i. MoveGranuleFile (params ! i) pgid w) settled
               @ [GranuleUpdate (granuleId g) updatedFiles]"
    by (simp add: st1_def)
  have stored: "granule_files st1 (granuleId g) = Some updatedFiles"
    by (simp add: st1_def)
  have files: "mset updatedFiles =
      mset (map (\<lambda>p. case moveGranuleFile env p pgid w of
                        Inr uf \<Rightarrow> renameProperty ''name'' ''fileName'' uf
                      | Inl e \<Rightarrow> the_file p) params)"
    unfolding updatedFiles_def
    using mset_map_nth_order [of settled params "\<lambda>p. fst (moveFilePromise env pgid w p)"]
    by (simp add: settled_def mset_settle_order fst_moveFilePromise)
  have loc: "\<forall>uf. prop_of (renameProperty ''name'' ''fileName'' uf) ''bucket'' = prop_of uf ''bucket''
           \<and> prop_of (renameProperty ''name'' ''fileName'' uf) ''key'' = prop_of uf ''key''"
    by (simp add: renameProperty_other)
  have errs1: "errs = concat (map (\<lambda>p. case moveGranuleFile env p pgid w of
                                 Inr uf \<Rightarrow> []
                               | Inl e \<Rightarrow> [Error (err_class e) (stringify env p @ '': '' @ err_message e) (err_code e)])
                      params)"
    by (simp add: errs_def reasons_settled)
  have errs2: "length errs = length (filter (\<lambda>p. isl (moveGranuleFile env p pgid w)) params)"
    by (simp add: errs_def length_reasons_settled)
  have thrown: "errs \<noteq> [] \<longrightarrow>
         (\<exists>st2. moveGranule env order st g dests =
                  (st2, Some (Error ''Error'' (stringify_failure env g errs updatedFiles) None))
              \<and> granule_files st2 (granuleId g) = Some updatedFiles
              \<and> events st2 = events st1 @ [ReconcileCMR (granuleId g) updatedFiles])"
    using cfg cmr stored by (simp add: moveGranule_def run Let_def)
  show ?thesis
    using run ev stored files loc errs1 errs2 thrown unfolding params_def settled_def by blast
qed

text \<open>
  Two files, the second one's move failing and settling first: the document store ends
  with the failed file where it was and the moved file in \<open>archive\<close>, one error is
  collected, and \<open>moveGranule\<close> throws.
\<close>

theorem partial_move_is_persisted_witness:
  "postgresWriteMode example_move_env granule_G1 = Inr (Some 42, True)
   \<and> settle_order [1, 0] (length (generateMoveFileParams example_move_env (files granule_G1) [])) = [1, 0]
   \<and> granulesModel_update example_move_env = (\<lambda>gid fs. None)
   \<and> getJsonS3Object example_move_env = None
   \<and> fetchDistributionBucketMap example_move_env = None
   \<and> reconcileCMRMetadata example_move_env = (\<lambda>gid fs. None)
   \<and> snd (moveGranuleFilesAndUpdateDatastore example_move_env [1, 0] empty_move_state granule_G1 [])
       = Inr ([file_b, renameProperty ''name'' ''fileName''
                         [''bucket'' \<mapsto> JStr ''archive'', ''key'' \<mapsto> JStr ''a.hdf'', ''name'' \<mapsto> JStr ''a.hdf'']],
              [Error ''NoSuchKey'' ''b.hdf: The specified key does not exist.'' None])
   \<and> snd (moveGranule example_move_env [1, 0] empty_move_state granule_G1 [])
       = Some (Error ''Error'' ''Failed to move granule G1'' None)
   \<and> map_option (map (\<lambda>f. (prop_of f ''bucket'', prop_of f ''key'', prop_of f ''fileName'')))
       (granule_files (fst (moveGranule example_move_env [1, 0] empty_move_state granule_G1 [])) ''G1'')
       = Some [(JStr ''staging'', JStr ''b.hdf'', JStr ''b.hdf''),
               (JStr ''archive'', JStr ''a.hdf'', JStr ''a.hdf'')]"
proof -
  have mode: "postgresWriteMode example_move_env granule_G1 = Inr (Some 42, True)"
    by (simp add: postgresWriteMode_def lookupCumulusGranuleId_def example_move_env_def granule_G1_def)
  have params: "generateMoveFileParams example_move_env (files granule_G1) [] =
      [\<lparr>source = Some [''Bucket'' \<mapsto> JStr ''staging'', ''Key'' \<mapsto> JStr ''a.hdf''],
        target = Some [''Bucket'' \<mapsto> JStr ''archive'', ''Key'' \<mapsto> JStr ''a.hdf''],
        the_file = file_a\<rparr>,
       \<lparr>source = Some [''Bucket'' \<mapsto> JStr ''staging'', ''Key'' \<mapsto> JStr ''b.hdf''],
        target = Some [''Bucket'' \<mapsto> JStr ''archive'', ''Key'' \<mapsto> JStr ''b.hdf''],
        the_file = file_b\<rparr>]"
    by (simp add: example_move_env_def granule_G1_def file_a_def file_b_def prop_of_def)
  have perm: "settle_order [1, 0] (length (generateMoveFileParams example_move_env (files granule_G1) [])) = [1, 0]"
    by (simp add: params settle_order_def upt_rec)
  have upd: "\<forall>fs. granulesModel_update example_move_env (granuleId granule_G1) fs = None"
    and cfg: "getJsonS3Object example_move_env = None" "fetchDistributionBucketMap example_move_env = None"
    and cmr: "\<forall>fs. reconcileCMRMetadata example_move_env (granuleId granule_G1) fs = None"
    by (simp_all add: example_move_env_def)
  have mva: "moveGranuleFile example_move_env
        \<lparr>source = Some [''Bucket'' \<mapsto> JStr ''staging'', ''Key'' \<mapsto> JStr ''a.hdf''],
          target = Some [''Bucket'' \<mapsto> JStr ''archive'', ''Key'' \<mapsto> JStr ''a.hdf''],
          the_file = file_a\<rparr> (Some 42) True
      = Inr [''bucket'' \<mapsto> JStr ''archive'', ''key'' \<mapsto> JStr ''a.hdf'', ''name'' \<mapsto> JStr ''a.hdf'']"
    by (simp add: example_move_env_def file_a_def prop_of_def)
  have mvb: "moveGranuleFile example_move_env
        \<lparr>source = Some [''Bucket'' \<mapsto> JStr ''staging'', ''Key'' \<mapsto> JStr ''b.hdf''],
          target = Some [''Bucket'' \<mapsto> JStr ''archive'', ''Key'' \<mapsto> JStr ''b.hdf''],
          the_file = file_b\<rparr> (Some 42) True
      = Inl (Error ''NoSuchKey'' ''The specified key does not exist.'' None)"
    by (simp add: example_move_env_def file_b_def prop_of_def)
  have str: "stringify example_move_env
        \<lparr>source = Some [''Bucket'' \<mapsto> JStr ''staging'', ''Key'' \<mapsto> JStr ''b.hdf''],
          target = Some [''Bucket'' \<mapsto> JStr ''archive'', ''Key'' \<mapsto> JStr ''b.hdf''],
          the_file = file_b\<rparr> = ''b.hdf''"
    by (simp add: example_move_env_def file_b_def prop_of_def)
  have g1: "granuleId granule_G1 = ''G1''"
    by (simp add: granule_G1_def)
  have run: "moveGranuleFilesAndUpdateDatastore example_move_env [1, 0] empty_move_state granule_G1 []
       = (\<lparr>granule_files = [''G1'' \<mapsto> [file_b, renameProperty ''name'' ''fileName''
                         [''bucket'' \<mapsto> JStr ''archive'', ''key'' \<mapsto> JStr ''a.hdf'', ''name'' \<mapsto> JStr ''a.hdf'']]],
           events = events (fst (moveGranuleFilesAndUpdateDatastore example_move_env [1, 0] empty_move_state granule_G1 []))\<rparr>,
          Inr ([file_b, renameProperty ''name'' ''fileName''
                         [''bucket'' \<mapsto> JStr ''archive'', ''key'' \<mapsto> JStr ''a.hdf'', ''name'' \<mapsto> JStr ''a.hdf'']],
              [Error ''NoSuchKey'' ''b.hdf: The specified key does not exist.'' None]))"
    using upd
    using perm
    by (simp add: moveGranuleFilesAndUpdateDatastore_def mode moveFilesAndUpdate_def Let_def params
        moveFilePromise_def mva mvb str empty_move_state_def g1)
  have cmr': "reconcileCMRMetadata example_move_env ''G1'' = (\<lambda>fs. None)"
    by (simp add: example_move_env_def)
  have sf: "stringify_failure example_move_env granule_G1 = (\<lambda>errs fs. ''Failed to move granule G1'')"
    by (simp add: example_move_env_def g1)
  have thrown: "snd (moveGranule example_move_env [1, 0] empty_move_state granule_G1 [])
       = Some (Error ''Error'' ''Failed to move granule G1'' None)"
    by (subst moveGranule_def, subst run) (simp add: cfg cmr' sf g1)
  have held: "granule_files (fst (moveGranule example_move_env [1, 0] empty_move_state granule_G1 [])) ''G1''
       = Some [file_b, renameProperty ''name'' ''fileName''
                         [''bucket'' \<mapsto> JStr ''archive'', ''key'' \<mapsto> JStr ''a.hdf'', ''name'' \<mapsto> JStr ''a.hdf'']]"
    by (subst moveGranule_def, subst run) (simp add: cfg cmr' sf g1)
  have shape: "map (\<lambda>f. (prop_of f ''bucket'', prop_of f ''key'', prop_of f ''fileName''))
        [file_b, renameProperty ''name'' ''fileName''
                         [''bucket'' \<mapsto> JStr ''archive'', ''key'' \<mapsto> JStr ''a.hdf'', ''name'' \<mapsto> JStr ''a.hdf'']]
      = [(JStr ''staging'', JStr ''b.hdf'', JStr ''b.hdf''), (JStr ''archive'', JStr ''a.hdf'', JStr ''a.hdf'')]"
    by (simp add: file_b_def renameProperty_def prop_of_def)
  have u: "granulesModel_update example_move_env = (\<lambda>gid fs. None)"
    and c: "reconcileCMRMetadata example_move_env = (\<lambda>gid fs. None)"
    by (simp_all add: example_move_env_def)
  have sndrun: "snd (moveGranuleFilesAndUpdateDatastore example_move_env [1, 0] empty_move_state granule_G1 [])
       = Inr ([file_b, renameProperty ''name'' ''fileName''
                         [''bucket'' \<mapsto> JStr ''archive'', ''key'' \<mapsto> JStr ''a.hdf'', ''name'' \<mapsto> JStr ''a.hdf'']],
              [Error ''NoSuchKey'' ''b.hdf: The specified key does not exist.'' None])"
    by (subst run) simp
  have listed: "map_option (map (\<lambda>f. (prop_of f ''bucket'', prop_of f ''key'', prop_of f ''fileName'')))
       (granule_files (fst (moveGranule example_move_env [1, 0] empty_move_state granule_G1 [])) ''G1'')
       = Some [(JStr ''staging'', JStr ''b.hdf'', JStr ''b.hdf''),
               (JStr ''archive'', JStr ''a.hdf'', JStr ''a.hdf'')]"
    by (simp only: held option.map shape)
  have concrete: ?thesis
    by (intro conjI) (rule mode perm u cfg c sndrun thrown listed)+
  show ?thesis
    by (insert partial_move_is_persisted [OF mode upd cfg cmr, of "[1, 0]" empty_move_state "[]"] concrete,
        assumption)
qed

lemma moveFilesAndUpdate_outcome:
  assumes upd: "\<forall>fs. granulesModel_update env (granuleId g) fs = None"
  shows "\<exists>st1 updatedFiles errs.
      moveFilesAndUpdate env order st g dests pgid w = (st1, Inr (updatedFiles, errs))
    \<and> events st1 = events st
         @ map (\<lambda>i. MoveGranuleFile (generateMoveFileParams env (files g) dests ! i) pgid w)
             (settle_order order (length (generateMoveFileParams env (files g) dests)))
         @ [GranuleUpdate (granuleId g) updatedFiles]
    \<and> granule_files st1 (granuleId g) = Some updatedFiles
    \<and> mset updatedFiles =
         mset (map (\<lambda>p. case moveGranuleFile env p pgid w of
                           Inr uf \<Rightarrow> renameProperty ''name'' ''fileName'' uf
                         | Inl e \<Rightarrow> the_file p)
                (generateMoveFileParams env (files g) dests))
    \<and> errs = concat (map (\<lambda>p. case moveGranuleFile env p pgid w of
                                 Inr uf \<Rightarrow> []
                               | Inl e \<Rightarrow> [Error (err_class e) (stringify env p @ '': '' @ err_message e) (err_code e)])
                      (generateMoveFileParams env (files g) dests))"
proof -
  define params where "params = generateMoveFileParams env (files g) dests"
  define settled where "settled = settle_order order (length params)"
  define updatedFiles where "updatedFiles = map (\<lambda>i. fst (moveFilePromise env pgid w (params ! i))) settled"
  define errs where "errs = reasons (map (\<lambda>p. snd (moveFilePromise env pgid w p)) params)"
  define st1 where "st1 = st\<lparr>granule_files := (granule_files st)(granuleId g \<mapsto> updatedFiles),
     events := events st @ map (\<lambda>i. MoveGranuleFile (params ! i) pgid w) settled
                 @ [GranuleUpdate (granuleId g) updatedFiles]\<rparr>"
  have run: "moveFilesAndUpdate env order st g dests pgid w = (st1, Inr (updatedFiles, errs))"
    using upd
    by (simp add: moveFilesAndUpdate_def Let_def params_def settled_def updatedFiles_def errs_def st1_def)
  have ev: "events st1 = events st @ map (\<lambda>i. MoveGranuleFile (params ! i) pgid w) settled
               @ [GranuleUpdate (granuleId g) updatedFiles]"
    by (simp add: st1_def)
  have stored: "granule_files st1 (granuleId g) = Some updatedFiles"
    by (simp add: st1_def)
  have held: "mset updatedFiles =
      mset (map (\<lambda>p. case moveGranuleFile env p pgid w of
                        Inr uf \<Rightarrow> renameProperty ''name'' ''fileName'' uf
                      | Inl e \<Rightarrow> the_file p) params)"
    unfolding updatedFiles_def
    using mset_map_nth_order [of settled params "\<lambda>p. fst (moveFilePromise env pgid w p)"]
    by (simp add: settled_def mset_settle_order fst_moveFilePromise)
  have errs1: "errs = concat (map (\<lambda>p. case moveGranuleFile env p pgid w of
                                 Inr uf \<Rightarrow> []
                               | Inl e \<Rightarrow> [Error (err_class e) (stringify env p @ '': '' @ err_message e) (err_code e)])
                      params)"
    by (simp add: errs_def reasons_settled)
  show ?thesis
    using run ev stored held errs1 unfolding params_def settled_def by blast
qed

text \<open>
  C7. When the lookup of the granule's relational id throws (the granule or its
  collection has no relational record, or anything else):
  \<^item> on RecordDoesNotExist \<open>writeToPostgres\<close> becomes false, with no relational id, and
    the function goes on instead of failing: when the update of the document store
    succeeds it returns, every \<open>moveGranuleFile\<close> call having been made with no id and
    \<open>writeToPostgres\<close> false, the document store holding the file list that those
    calls produced (the file returned for a move that succeeded, the original file for
    one that failed), written by the one update after the moves, and the errors being
    those of these calls;
  \<^item> any other error is thrown again, and nothing has been done.
\<close>

theorem unmigrated_granule_degrades:
  assumes "lookupCumulusGranuleId env g = Inl e"
  shows "(err_class e = ''RecordDoesNotExist'' \<longrightarrow>
            postgresWriteMode env g = Inr (None, False)
          \<and> ((\<forall>fs. granulesModel_update env (granuleId g) fs = None) \<longrightarrow>
              (\<exists>st1 updatedFiles errs.
                 moveGranuleFilesAndUpdateDatastore env order st g dests = (st1, Inr (updatedFiles, errs))
               \<and> events st1 = events st
                   @ map (\<lambda>i. MoveGranuleFile (generateMoveFileParams env (files g) dests ! i) None False)
                       (settle_order order (length (generateMoveFileParams env (files g) dests)))
                   @ [GranuleUpdate (granuleId g) updatedFiles]
               \<and> granule_files st1 (granuleId g) = Some updatedFiles
               \<and> mset updatedFiles =
                   mset (map (\<lambda>p. case moveGranuleFile env p None False of
                                     Inr uf \<Rightarrow> renameProperty ''name'' ''fileName'' uf
                                   | Inl e \<Rightarrow> the_file p)
                          (generateMoveFileParams env (files g) dests))
               \<and> errs = concat (map (\<lambda>p. case moveGranuleFile env p None False of
                                           Inr uf \<Rightarrow> []
                                         | Inl e \<Rightarrow> [Error (err_class e)
                                                       (stringify env p @ '': '' @ err_message e) (err_code e)])
                                (generateMoveFileParams env (files g) dests)))))
       \<and> (err_class e \<noteq> ''RecordDoesNotExist'' \<longrightarrow>
            moveGranuleFilesAndUpdateDatastore env order st g dests = (st, Inl e))"
proof (intro conjI impI)
  assume missing: "err_class e = ''RecordDoesNotExist''"
  with assms show mode: "postgresWriteMode env g = Inr (None, False)"
    by (simp add: postgresWriteMode_def)
  assume "\<forall>fs. granulesModel_update env (granuleId g) fs = None"
  then show "\<exists>st1 updatedFiles errs.
                 moveGranuleFilesAndUpdateDatastore env order st g dests = (st1, Inr (updatedFiles, errs))
               \<and> events st1 = events st
                   @ map (\<lambda>i. MoveGranuleFile (generateMoveFileParams env (files g) dests ! i) None False)
                       (settle_order order (length (generateMoveFileParams env (files g) dests)))
                   @ [GranuleUpdate (granuleId g) updatedFiles]
               \<and> granule_files st1 (granuleId g) = Some updatedFiles
               \<and> mset updatedFiles =
                   mset (map (\<lambda>p. case moveGranuleFile env p None False of
                                     Inr uf \<Rightarrow> renameProperty ''name'' ''fileName'' uf
                                   | Inl e \<Rightarrow> the_file p)
                          (generateMoveFileParams env (files g) dests))
               \<and> errs = concat (map (\<lambda>p. case moveGranuleFile env p None False of
                                           Inr uf \<Rightarrow> []
                                         | Inl e \<Rightarrow> [Error (err_class e)
                                                       (stringify env p @ '': '' @ err_message e) (err_code e)])
                                (generateMoveFileParams env (files g) dests))"
    using moveFilesAndUpdate_outcome [of env g order st dests None False]
    by (simp add: moveGranuleFilesAndUpdateDatastore_def mode)
next
  assume "err_class e \<noteq> ''RecordDoesNotExist''"
  with assms show "moveGranuleFilesAndUpdateDatastore env order st g dests = (st, Inl e)"
    by (simp add: moveGranuleFilesAndUpdateDatastore_def postgresWriteMode_def)
qed

text \<open>
  A granule whose collection has no relational record is moved with
  \<open>writeToPostgres\<close> false and the document store gets its moved file; a granule whose
  collection id cannot be parsed is not moved, and the parse error is thrown.
\<close>

theorem unmigrated_granule_degrades_witness:
  "lookupCumulusGranuleId example_move_env granule_unmigrated
      = Inl (Error ''RecordDoesNotExist'' ''Record in collections does not exist'' None)
   \<and> postgresWriteMode example_move_env granule_unmigrated = Inr (None, False)
   \<and> granulesModel_update example_move_env = (\<lambda>gid fs. None)
   \<and> moveGranuleFile example_move_env (generateMoveFileParams example_move_env (Some [file_a]) [] ! 0) None False
      = Inr [''bucket'' \<mapsto> JStr ''archive'', ''key'' \<mapsto> JStr ''a.hdf'', ''name'' \<mapsto> JStr ''a.hdf'']
   \<and> moveGranuleFilesAndUpdateDatastore example_move_env [0] empty_move_state granule_unmigrated []
      = (\<lparr>granule_files =
             [''G2'' \<mapsto> [renameProperty ''name'' ''fileName''
                [''bucket'' \<mapsto> JStr ''archive'', ''key'' \<mapsto> JStr ''a.hdf'', ''name'' \<mapsto> JStr ''a.hdf'']]],
           events =
             [MoveGranuleFile (generateMoveFileParams example_move_env (Some [file_a]) [] ! 0) None False,
              GranuleUpdate ''G2'' [renameProperty ''name'' ''fileName''
                [''bucket'' \<mapsto> JStr ''archive'', ''key'' \<mapsto> JStr ''a.hdf'', ''name'' \<mapsto> JStr ''a.hdf'']]]\<rparr>,
         Inr ([renameProperty ''name'' ''fileName''
                [''bucket'' \<mapsto> JStr ''archive'', ''key'' \<mapsto> JStr ''a.hdf'', ''name'' \<mapsto> JStr ''a.hdf'']], []))
   \<and> lookupCumulusGranuleId example_move_env granule_malformed
      = Inl (Error ''Error'' ''invalid collectionId'' None)
   \<and> moveGranuleFilesAndUpdateDatastore example_move_env [0] empty_move_state granule_malformed []
      = (empty_move_state, Inl (Error ''Error'' ''invalid collectionId'' None))"
proof -
  have l1: "lookupCumulusGranuleId example_move_env granule_unmigrated
      = Inl (Error ''RecordDoesNotExist'' ''Record in collections does not exist'' None)"
    by (simp add: lookupCumulusGranuleId_def example_move_env_def granule_unmigrated_def)
  have l2: "lookupCumulusGranuleId example_move_env granule_malformed
      = Inl (Error ''Error'' ''invalid collectionId'' None)"
    by (simp add: lookupCumulusGranuleId_def example_move_env_def granule_malformed_def)
  have u: "granulesModel_update example_move_env = (\<lambda>gid fs. None)"
    by (simp add: example_move_env_def)
  have g: "granuleId granule_unmigrated = ''G2''" "files granule_unmigrated = Some [file_a]"
    by (simp_all add: granule_unmigrated_def)
  have mv: "moveGranuleFile example_move_env (generateMoveFileParams example_move_env (Some [file_a]) [] ! 0) None False
      = Inr [''bucket'' \<mapsto> JStr ''archive'', ''key'' \<mapsto> JStr ''a.hdf'', ''name'' \<mapsto> JStr ''a.hdf'']"
    by (simp add: example_move_env_def file_a_def prop_of_def)
  have len: "generateMoveFileParams example_move_env (Some [file_a]) [] =
      [generateMoveFileParams example_move_env (Some [file_a]) [] ! 0]"
    by (simp add: example_move_env_def)
  have errs: "reasons (map (\<lambda>p. snd (moveFilePromise example_move_env None False p))
        (generateMoveFileParams example_move_env (Some [file_a]) [])) = []"
    by (subst len) (simp add: moveFilePromise_def mv)
  have moved: "fst (moveFilePromise example_move_env None False
        (generateMoveFileParams example_move_env (Some [file_a]) [] ! 0)) =
      renameProperty ''name'' ''fileName''
        [''bucket'' \<mapsto> JStr ''archive'', ''key'' \<mapsto> JStr ''a.hdf'', ''name'' \<mapsto> JStr ''a.hdf'']"
    by (simp add: moveFilePromise_def mv)
  have so: "settle_order [0] (length (generateMoveFileParams example_move_env (Some [file_a]) [])) = [0]"
    by (simp add: example_move_env_def settle_order_def)
  have mode: "postgresWriteMode example_move_env granule_unmigrated = Inr (None, False)"
    using unmigrated_granule_degrades [OF l1, of "[0]" empty_move_state "[]"] by simp
  have run: "moveGranuleFilesAndUpdateDatastore example_move_env [0] empty_move_state granule_unmigrated []
      = (\<lparr>granule_files =
             [''G2'' \<mapsto> [renameProperty ''name'' ''fileName''
                [''bucket'' \<mapsto> JStr ''archive'', ''key'' \<mapsto> JStr ''a.hdf'', ''name'' \<mapsto> JStr ''a.hdf'']]],
           events =
             [MoveGranuleFile (generateMoveFileParams example_move_env (Some [file_a]) [] ! 0) None False,
              GranuleUpdate ''G2'' [renameProperty ''name'' ''fileName''
                [''bucket'' \<mapsto> JStr ''archive'', ''key'' \<mapsto> JStr ''a.hdf'', ''name'' \<mapsto> JStr ''a.hdf'']]]\<rparr>,
         Inr ([renameProperty ''name'' ''fileName''
                [''bucket'' \<mapsto> JStr ''archive'', ''key'' \<mapsto> JStr ''a.hdf'', ''name'' \<mapsto> JStr ''a.hdf'']], []))"
    by (simp add: moveGranuleFilesAndUpdateDatastore_def mode moveFilesAndUpdate_def Let_def g u so
        errs moved empty_move_state_def)
  have stopped: "moveGranuleFilesAndUpdateDatastore example_move_env [0] empty_move_state granule_malformed []
      = (empty_move_state, Inl (Error ''Error'' ''invalid collectionId'' None))"
    using unmigrated_granule_degrades [OF l2, of "[0]" empty_move_state "[]"] by simp
  have concrete: ?thesis
    by (intro conjI) (rule l1 mode u mv run l2 stopped)+
  show ?thesis
    by (insert unmigrated_granule_degrades [OF l1, of "[0]" empty_move_state "[]"] concrete, assumption)
qed

subsection \<open>The PDR model\<close>

lemma generatePdrRecord_createPdrMessage:
  "generatePdrRecord (createPdrMessage exec st start nc nf nr) =
     Inr (Some \<lparr>pdrName = ''pdr1'', status = st,
                 stats = \<lparr>completed = nc, failed = nf, processing = nr, total = nc + nf + nr\<rparr>,
                 execution = (''parsePdr'', exec), createdAt = start\<rparr>)"
  by (simp add: generatePdrRecord_def createPdrMessage_def prop_of_def)

lemma store_first_createPdrMessage:
  "store_first (createPdrMessage exec st start nc nf nr) =
     [''pdr1'' \<mapsto> \<lparr>pdrName = ''pdr1'', status = st,
                 stats = \<lparr>completed = nc, failed = nf, processing = nr, total = nc + nf + nr\<rparr>,
                 execution = (''parsePdr'', exec), createdAt = start\<rparr>]"
  by (simp add: store_first_def storePdrFromCumulusMessage_def generatePdrRecord_createPdrMessage
      resolve_def)

text \<open>
  C1. When the stored record of a PDR is terminal (completed or failed) and a message
  for that PDR comes from a different execution whose workflow start time is not
  strictly newer than the record's creation time, \<open>storePdrFromCumulusMessage\<close> leaves
  the store as it is: the record's status, stats and execution are unchanged.
\<close>

theorem stale_report_is_rejected:
  assumes "tbl name = Some cur"
    and "terminal (status cur)"
    and "generatePdrRecord message = Inr (Some incoming)"
    and "pdrName incoming = name"
    and "execution incoming \<noteq> execution cur"
    and "createdAt incoming \<le> createdAt cur"
  shows "storePdrFromCumulusMessage other_execution tbl message = Inr tbl"
  using assms
  by (simp add: storePdrFromCumulusMessage_def resolve_def)

text \<open>
  The ordering example of the spec: after the report of execution A (completed, start
  100), the report of execution B (running, start 50) changes nothing.
\<close>

theorem stale_report_is_rejected_witness:
  "store_first (createPdrMessage ''A'' Completed 100 3 0 0) ''pdr1''
     = Some \<lparr>pdrName = ''pdr1'', status = Completed,
              stats = \<lparr>completed = 3, failed = 0, processing = 0, total = 3\<rparr>,
              execution = (''parsePdr'', ''A''), createdAt = 100\<rparr>
   \<and> terminal Completed
   \<and> generatePdrRecord (createPdrMessage ''B'' Running 50 0 0 2)
     = Inr (Some \<lparr>pdrName = ''pdr1'', status = Running,
                   stats = \<lparr>completed = 0, failed = 0, processing = 2, total = 2\<rparr>,
                   execution = (''parsePdr'', ''B''), createdAt = 50\<rparr>)
   \<and> (''parsePdr'', ''B'') \<noteq> (''parsePdr'', ''A'')
   \<and> (50 :: int) \<le> 100
   \<and> storePdrFromCumulusMessage (\<lambda>cur inc. True)
        (store_first (createPdrMessage ''A'' Completed 100 3 0 0))
        (createPdrMessage ''B'' Running 50 0 0 2)
     = Inr (store_first (createPdrMessage ''A'' Completed 100 3 0 0))"
proof -
  have cur: "store_first (createPdrMessage ''A'' Completed 100 3 0 0) ''pdr1''
     = Some \<lparr>pdrName = ''pdr1'', status = Completed,
              stats = \<lparr>completed = 3, failed = 0, processing = 0, total = 3\<rparr>,
              execution = (''parsePdr'', ''A''), createdAt = 100\<rparr>"
    by (simp add: store_first_createPdrMessage)
  have inc: "generatePdrRecord (createPdrMessage ''B'' Running 50 0 0 2)
     = Inr (Some \<lparr>pdrName = ''pdr1'', status = Running,
                   stats = \<lparr>completed = 0, failed = 0, processing = 2, total = 2\<rparr>,
                   execution = (''parsePdr'', ''B''), createdAt = 50\<rparr>)"
    by (simp add: generatePdrRecord_createPdrMessage)
  have t: "terminal Completed" by (simp add: terminal_def)
  have ne: "(''parsePdr'', ''B'') \<noteq> (''parsePdr'', ''A'')" by simp
  have le: "(50 :: int) \<le> 100" by simp
  have kept: "storePdrFromCumulusMessage (\<lambda>cur inc. True)
        (store_first (createPdrMessage ''A'' Completed 100 3 0 0))
        (createPdrMessage ''B'' Running 50 0 0 2)
     = Inr (store_first (createPdrMessage ''A'' Completed 100 3 0 0))"
    using stale_report_is_rejected
            [where tbl = "store_first (createPdrMessage ''A'' Completed 100 3 0 0)"
               and name = "''pdr1''" and other_execution = "\<lambda>cur inc. True", OF cur _ inc] t
    by simp
  show ?thesis
    by (intro conjI) (rule cur t inc ne le kept)+
qed

subsection \<open>Execution endpoints\<close>

lemma translate_collection_missing:
  assumes "e ''collectionId'' = Some c" and "collections_pg db (js_string c) = None"
  shows "translateApiExecutionToPostgresExecution db e
           = Inl (reference_not_found ''collections'' (js_string c))"
  using assms by (simp add: translateApiExecutionToPostgresExecution_def)

lemma translate_parent_missing:
  assumes "e ''parentArn'' = Some p" and "executions_pg db (js_string p) = None"
    and "resolves (collections_pg db) (e ''collectionId'')"
    and "resolves (async_operations_pg db) (e ''asyncOperationId'')"
  shows "\<exists>row. translateApiExecutionToPostgresExecution db e = Inr row
           \<and> row ''parent_cumulus_id'' = None \<and> row ''cumulus_id'' = None"
  using assms
  by (auto simp: translateApiExecutionToPostgresExecution_def resolves_def split: option.splits)

text \<open>
  C4. Creating an execution that has an arn:
  when its \<open>collectionId\<close> names a collection that does not exist, the create fails with
  400 Bad Request, the message of the ReferenceNotFoundError naming the collection
  identifiers, and nothing is stored;
  when its \<open>parentArn\<close> names an execution that does not exist (its other references
  resolving and its arn being new), the create succeeds and the row stored has no
  \<open>parent_cumulus_id\<close>.
\<close>

theorem required_collection_optional_parent:
  assumes "truthy (prop_of e ''arn'')"
  shows "(\<forall>c. e ''collectionId'' = Some c \<and> collections_pg db (js_string c) = None \<longrightarrow>
            execution_create db e =
              (db, Boom 400 (''Record in collections with identifiers '' @ js_string c @ '' does not exist'')))
       \<and> (\<forall>p. e ''parentArn'' = Some p \<and> executions_pg db (js_string p) = None
              \<and> resolves (collections_pg db) (e ''collectionId'')
              \<and> resolves (async_operations_pg db) (e ''asyncOperationId'')
              \<and> executions_pg db (js_string (prop_of e ''arn'')) = None
              \<and> executions_dynamo db (js_string (prop_of e ''arn'')) = None \<longrightarrow>
            (\<exists>db' row. execution_create db e = (db', Send e)
               \<and> executions_dynamo db' (js_string (prop_of e ''arn'')) = Some e
               \<and> executions_pg db' (js_string (prop_of e ''arn'')) = Some row
               \<and> row ''parent_cumulus_id'' = None))"
proof (intro conjI allI impI)
  fix c
  assume "e ''collectionId'' = Some c \<and> collections_pg db (js_string c) = None"
  then have "translateApiExecutionToPostgresExecution db e
           = Inl (reference_not_found ''collections'' (js_string c))"
    by (simp add: translate_collection_missing)
  with assms show "execution_create db e =
      (db, Boom 400 (''Record in collections with identifiers '' @ js_string c @ '' does not exist''))"
    by (simp add: execution_create_def reference_not_found_def badRequest_def)
next
  fix p
  assume h: "e ''parentArn'' = Some p \<and> executions_pg db (js_string p) = None
              \<and> resolves (collections_pg db) (e ''collectionId'')
              \<and> resolves (async_operations_pg db) (e ''asyncOperationId'')
              \<and> executions_pg db (js_string (prop_of e ''arn'')) = None
              \<and> executions_dynamo db (js_string (prop_of e ''arn'')) = None"
  then obtain row where row: "translateApiExecutionToPostgresExecution db e = Inr row"
    "row ''parent_cumulus_id'' = None"
    using translate_parent_missing [of e p db] by blast
  have "execution_create db e =
      (db\<lparr>executions_dynamo := (executions_dynamo db)(js_string (prop_of e ''arn'') \<mapsto> e),
          executions_pg := (executions_pg db)
             (js_string (prop_of e ''arn'') \<mapsto> row(''cumulus_id'' \<mapsto> JInt (int (next_cumulus_id db)))),
          next_cumulus_id := Suc (next_cumulus_id db)\<rparr>,
       Send e)"
    using assms h row(1) by (simp add: execution_create_def Let_def)
  moreover have "(row(''cumulus_id'' \<mapsto> JInt (int (next_cumulus_id db)))) ''parent_cumulus_id'' = None"
    using row(2) by simp
  ultimately show "\<exists>db' row. execution_create db e = (db', Send e)
               \<and> executions_dynamo db' (js_string (prop_of e ''arn'')) = Some e
               \<and> executions_pg db' (js_string (prop_of e ''arn'')) = Some row
               \<and> row ''parent_cumulus_id'' = None"
    by simp
qed

text \<open>
  The two tests of POST /executions: a collection that does not exist is a 400, a
  parent that does not exist leaves \<open>parent_cumulus_id\<close> unset.
\<close>

theorem required_collection_optional_parent_witness:
  "truthy (prop_of (newExecution ''arn:2'' ''op-1'' ''name___version'' ''arn:1'') ''arn'')
   \<and> collections_pg example_db ''name___version'' = None
   \<and> execution_create example_db (newExecution ''arn:2'' ''op-1'' ''name___version'' ''arn:1'')
       = (example_db, Boom 400 ''Record in collections with identifiers name___version does not exist'')
   \<and> executions_pg example_db ''arn:9'' = None
   \<and> resolves (collections_pg example_db) (Some (JStr ''MOD09GQ___006''))
   \<and> resolves (async_operations_pg example_db) (Some (JStr ''op-1''))
   \<and> executions_pg example_db ''arn:2'' = None
   \<and> executions_dynamo example_db ''arn:2'' = None
   \<and> (\<exists>db' row. execution_create example_db (newExecution ''arn:2'' ''op-1'' ''MOD09GQ___006'' ''arn:9'')
          = (db', Send (newExecution ''arn:2'' ''op-1'' ''MOD09GQ___006'' ''arn:9''))
        \<and> executions_dynamo db' ''arn:2'' = Some (newExecution ''arn:2'' ''op-1'' ''MOD09GQ___006'' ''arn:9'')
        \<and> executions_pg db' ''arn:2'' = Some row
        \<and> row ''parent_cumulus_id'' = None)"
proof -
  have arn: "prop_of (newExecution a op c p) ''arn'' = JStr a" for a op c p
    by (simp add: newExecution_def prop_of_def)
  have refs: "newExecution a op c p ''collectionId'' = Some (JStr c)"
    "newExecution a op c p ''asyncOperationId'' = Some (JStr op)"
    "newExecution a op c p ''parentArn'' = Some (JStr p)" for a op c p
    by (simp_all add: newExecution_def)
  have t: "truthy (prop_of (newExecution ''arn:2'' op c p) ''arn'')" for op c p
    by (simp add: arn)
  have c0: "collections_pg example_db ''name___version'' = None"
    and p0: "executions_pg example_db ''arn:9'' = None"
    and rc: "resolves (collections_pg example_db) (Some (JStr ''MOD09GQ___006''))"
    and ra: "resolves (async_operations_pg example_db) (Some (JStr ''op-1''))"
    and n1: "executions_pg example_db ''arn:2'' = None"
    and n2: "executions_dynamo example_db ''arn:2'' = None"
    by (simp_all add: example_db_def resolves_def)
  have bad: "execution_create example_db (newExecution ''arn:2'' ''op-1'' ''name___version'' ''arn:1'')
       = (example_db, Boom 400 ''Record in collections with identifiers name___version does not exist'')"
    using required_collection_optional_parent [OF t, of "''op-1''" "''name___version''" "''arn:1''" example_db] c0
    by (simp add: refs)
  have good: "\<exists>db' row. execution_create example_db (newExecution ''arn:2'' ''op-1'' ''MOD09GQ___006'' ''arn:9'')
          = (db', Send (newExecution ''arn:2'' ''op-1'' ''MOD09GQ___006'' ''arn:9''))
        \<and> executions_dynamo db' ''arn:2'' = Some (newExecution ''arn:2'' ''op-1'' ''MOD09GQ___006'' ''arn:9'')
        \<and> executions_pg db' ''arn:2'' = Some row
        \<and> row ''parent_cumulus_id'' = None"
    using required_collection_optional_parent [OF t, of "''op-1''" "''MOD09GQ___006''" "''arn:9''" example_db]
      p0 rc ra n1 n2
    by (simp add: refs arn)
  show ?thesis
    by (intro conjI) (rule t c0 bad p0 rc ra n1 n2 good)+
qed

end
